theory Spec2Isabelle
  imports
    Complex_Main
    "HOL-Library.Sublist"
    "HOL-Library.Char_ord"
    "HOL-Library.List_Lexorder"
begin

section \<open>Data model\<close>

text \<open>
  The dashboard script \<^verbatim>\<open>src/app.py\<close> works on one pandas DataFrame. A DataFrame of
  the CSV's twelve columns is modelled as the list of its rows, in index order, every cell
  present (no missing value in any column).

  \<^item> \<open>timestamp\<close>: a pandas \<^verbatim>\<open>Timestamp\<close>, as nanoseconds since the epoch.
  \<^item> \<open>date\<close>: a Python \<^verbatim>\<open>datetime.date\<close>, as days since the epoch.
  \<^item> amounts (\<^verbatim>\<open>unit_price\<close>, \<^verbatim>\<open>shipping_cost\<close>, \<^verbatim>\<open>fulfillment_cost\<close>) and every mean are
    exact rationals: the rounding of float64 arithmetic is not part of the model. A sum
    here is the exact sum, so nothing below compares two sums that the code takes over
    the same values in different groupings: in float64 those can differ.
\<close>

type_synonym timestamp = int
type_synonym date = int

record row =
  order_id :: string
  order_date :: timestamp
  ship_date :: timestamp
  delivery_date :: timestamp
  units_sold :: int
  unit_price :: rat
  shipping_cost :: rat
  fulfillment_cost :: rat
  delivery_status :: string
  region :: string
  warehouse_id :: string
  product_category :: string

type_synonym table = "row list"

definition ns_per_day :: int where
  "ns_per_day = 86400000000000"

text \<open>
  \<^verbatim>\<open>Timestamp.date()\<close> drops the time of day; \<^verbatim>\<open>pd.to_datetime(d)\<close> of a date is midnight
  of that day. \<open>None\<close> stands for the missing value that \<^verbatim>\<open>min()\<close> and \<^verbatim>\<open>max()\<close> give on a
  column of no rows. These two functions pass it on; the script cannot take the date of
  it and raises, which \<open>run_sidebar_filters\<close> below models.
\<close>

definition date_of :: "timestamp option \<Rightarrow> date option" where
  "date_of t = map_option (\<lambda>x. x div ns_per_day) t"

definition to_datetime :: "date option \<Rightarrow> timestamp option" where
  "to_datetime d = map_option (\<lambda>x. x * ns_per_day) d"

text \<open>\<^verbatim>\<open>Series.min()\<close> and \<^verbatim>\<open>Series.max()\<close> of the date column: no timestamp on no rows.\<close>

definition series_min :: "timestamp list \<Rightarrow> timestamp option" where
  "series_min xs = (case xs of [] \<Rightarrow> None | y # ys \<Rightarrow> Some (fold min ys y))"

definition series_max :: "timestamp list \<Rightarrow> timestamp option" where
  "series_max xs = (case xs of [] \<Rightarrow> None | y # ys \<Rightarrow> Some (fold max ys y))"

text \<open>Comparison of a datetime column with a scalar: \<^verbatim>\<open>False\<close> everywhere against a
  missing one.\<close>

definition series_ge :: "timestamp list \<Rightarrow> timestamp option \<Rightarrow> bool list" where
  "series_ge col t = map (\<lambda>x. case t of None \<Rightarrow> False | Some s \<Rightarrow> s \<le> x) col"

definition series_le :: "timestamp list \<Rightarrow> timestamp option \<Rightarrow> bool list" where
  "series_le col t = map (\<lambda>x. case t of None \<Rightarrow> False | Some e \<Rightarrow> x \<le> e) col"

text \<open>\<^verbatim>\<open>Series.isin(values)\<close>, the elementwise \<^verbatim>\<open>&\<close> of two boolean columns, and
  \<^verbatim>\<open>df.loc[mask]\<close>.\<close>

definition isin :: "string list \<Rightarrow> string list \<Rightarrow> bool list" where
  "isin col vals = map (\<lambda>v. v \<in> set vals) col"

definition series_and :: "bool list \<Rightarrow> bool list \<Rightarrow> bool list" where
  "series_and a b = map (\<lambda>(x, y). x \<and> y) (zip a b)"

definition loc :: "'a list \<Rightarrow> bool list \<Rightarrow> 'a list" where
  "loc df msk = map fst (filter snd (zip df msk))"

section \<open>The filter of \<^verbatim>\<open>sidebar_filters\<close>\<close>

text \<open>What the three multiselect widgets and the date widget return. The date widget
  returns one date, or a tuple of dates.\<close>

datatype date_input = Single_date date | Date_tuple "date list"

record widgets =
  regions :: "string list"
  warehouses :: "string list"
  categories :: "string list"
  date_range :: date_input

text \<open>Lines 204 to 212: the mask, and the rows it keeps.\<close>

definition filter_mask ::
  "table \<Rightarrow> string list \<Rightarrow> string list \<Rightarrow> string list \<Rightarrow>
   timestamp option \<Rightarrow> timestamp option \<Rightarrow> bool list" where
  "filter_mask df rs ws cs start_ts end_ts =
     series_and (series_and (series_and (series_and
       (isin (map region df) rs)
       (isin (map warehouse_id df) ws))
       (isin (map product_category df) cs))
       (series_ge (map order_date df) start_ts))
       (series_le (map order_date df) end_ts)"

definition apply_filter ::
  "table \<Rightarrow> string list \<Rightarrow> string list \<Rightarrow> string list \<Rightarrow>
   timestamp option \<Rightarrow> timestamp option \<Rightarrow> table" where
  "apply_filter df rs ws cs start_ts end_ts = loc df (filter_mask df rs ws cs start_ts end_ts)"

text \<open>Lines 178 to 201: the date span of the table, and the normalisation of the date
  widget's value to a pair of timestamps. \<open>min_date\<close>, \<open>max_date\<close> and \<open>sidebar_filters\<close>
  describe the code on a table with at least one row. On a table with no rows lines 178
  and 179 raise before any widget is read; \<open>run_sidebar_filters\<close> is the call with that
  exception, and it is what the main script calls.\<close>

definition min_date :: "table \<Rightarrow> date option" where
  "min_date df = date_of (series_min (map order_date df))"

definition max_date :: "table \<Rightarrow> date option" where
  "max_date df = date_of (series_max (map order_date df))"

fun normalize_range :: "table \<Rightarrow> date_input \<Rightarrow> date option \<times> date option" where
  "normalize_range df (Date_tuple [s, e]) = (Some s, Some e)"
| "normalize_range df (Date_tuple [d]) = (Some d, Some d)"
| "normalize_range df (Date_tuple ds) = (min_date df, max_date df)"
| "normalize_range df (Single_date d) = (Some d, Some d)"

definition sidebar_filters :: "table \<Rightarrow> widgets \<Rightarrow> table" where
  "sidebar_filters df w =
     (let (start_date, end_date) = normalize_range df (date_range w);
          start_ts = to_datetime start_date;
          end_ts = to_datetime end_date
      in apply_filter df (regions w) (warehouses w) (categories w) start_ts end_ts)"

text \<open>The exceptions that end a run: one raised by \<^verbatim>\<open>pd.read_csv\<close>, and the
  \<^verbatim>\<open>AttributeError\<close> of line 178, where \<^verbatim>\<open>df["order_date"].min()\<close> of a table with no rows is
  not a timestamp and has no \<^verbatim>\<open>date()\<close>.\<close>

datatype error = Read_csv_error | Attribute_error

definition run_sidebar_filters :: "table \<Rightarrow> widgets \<Rightarrow> error + table" where
  "run_sidebar_filters df w =
     (case series_min (map order_date df) of
        None \<Rightarrow> Inl Attribute_error
      | Some t \<Rightarrow> Inr (sidebar_filters df w))"

section \<open>Derived columns\<close>

text \<open>
  Lines 25 to 29, 50 to 51 and 124 to 125 assign columns computed elementwise from other
  columns of the same frame, so the value at a row is a function of that row; the column
  is \<open>map f df\<close>. \<^verbatim>\<open>.dt.days\<close> of a difference of timestamps is its whole days, rounded
  down.
\<close>

definition order_value :: "row \<Rightarrow> rat" where
  "order_value r = of_int (units_sold r) * unit_price r"

definition total_cost :: "row \<Rightarrow> rat" where
  "total_cost r = shipping_cost r + fulfillment_cost r"

definition profit :: "row \<Rightarrow> rat" where
  "profit r = order_value r - total_cost r"

definition delivery_days :: "row \<Rightarrow> int" where
  "delivery_days r = (delivery_date r - ship_date r) div ns_per_day"

definition is_late :: "row \<Rightarrow> bool" where
  "is_late r = (delivery_status r = ''Late'')"

text \<open>\<^verbatim>\<open>Series.mean()\<close>: \<open>None\<close> stands for the \<^verbatim>\<open>NaN\<close> it returns on no rows. A boolean
  column counts \<^verbatim>\<open>True\<close> as 1.\<close>

definition mean :: "rat list \<Rightarrow> rat option" where
  "mean xs = (if xs = [] then None else Some (sum_list xs / of_nat (length xs)))"

definition bool_mean :: "bool list \<Rightarrow> rat option" where
  "bool_mean bs = mean (map (\<lambda>b. if b then 1 else 0) bs)"

section \<open>\<^verbatim>\<open>kpi_section\<close>\<close>

text \<open>The six values that lines 31 to 36 compute and lines 40 to 45 display.\<close>

record kpi =
  total_orders :: nat
  total_revenue :: rat
  total_profit :: rat
  on_time_rate :: "rat option"
  avg_delivery_days :: "rat option"
  avg_fulfillment_cost :: "rat option"

definition kpi_section :: "table \<Rightarrow> kpi" where
  "kpi_section df =
     \<lparr> total_orders = length df,
       total_revenue = sum_list (map order_value df),
       total_profit = sum_list (map profit df),
       on_time_rate = map_option (\<lambda>m. 100 * (1 - m)) (bool_mean (map is_late df)),
       avg_delivery_days = mean (map (\<lambda>r. of_int (delivery_days r)) df),
       avg_fulfillment_cost = mean (map fulfillment_cost df) \<rparr>"

section \<open>\<^verbatim>\<open>charts_section\<close>\<close>

text \<open>
  \<^verbatim>\<open>df.groupby(key)\<close> with pandas' defaults (\<^verbatim>\<open>sort=True\<close>): one group for each distinct
  value of the key column, the groups in ascending order of the key, the rows of a group
  in the order of the frame. \<^verbatim>\<open>.agg(...).reset_index()\<close> then gives one output row for each
  group, in that order.
\<close>

definition groupby :: "('r \<Rightarrow> 'k::linorder) \<Rightarrow> 'r list \<Rightarrow> ('k \<times> 'r list) list" where
  "groupby key df = map (\<lambda>k. (k, filter (\<lambda>r. key r = k) df)) (sort (remdups (map key df)))"

record charts =
  orders_by_date :: "(timestamp \<times> nat \<times> rat) list"
  revenue_by_region :: "(string \<times> rat) list"
  ontime_by_wh :: "(string \<times> rat option) list"
  perf_by_cat :: "(string \<times> rat \<times> rat \<times> rat option) list"

definition charts_section :: "table \<Rightarrow> charts" where
  "charts_section df =
     \<lparr> orders_by_date =
         map (\<lambda>(k, g). (k, length (map order_id g), sum_list (map order_value g)))
           (groupby order_date df),
       revenue_by_region =
         map (\<lambda>(k, g). (k, sum_list (map order_value g))) (groupby region df),
       ontime_by_wh =
         map (\<lambda>(k, g). (k, map_option (\<lambda>m. 100 * (1 - m)) (bool_mean (map is_late g))))
           (groupby warehouse_id df),
       perf_by_cat =
         map (\<lambda>(k, g). (k, sum_list (map order_value g), sum_list (map profit g),
                 mean (map (\<lambda>r. of_int (delivery_days r)) g)))
           (groupby product_category df) \<rparr>"

section \<open>The main script\<close>

text \<open>
  \<^verbatim>\<open>load_data\<close> is \<^verbatim>\<open>pd.read_csv\<close> behind a cache; the parser is a parameter, and an
  exception it raises is \<open>Inl\<close>. The script's calls that display something are the events
  of a run, in order (lines 217 to 238). A run is the events it displays and the
  exception that ended it, if one did.
\<close>

definition load_data :: "('f \<Rightarrow> error + table) \<Rightarrow> 'f \<Rightarrow> error + table" where
  "load_data read_csv file = read_csv file"

datatype event =
    Info
  | Raw_data_preview table
  | Filtered_rows nat
  | Warning_no_data
  | Kpi_section kpi
  | Charts_section charts

definition main ::
  "('f \<Rightarrow> error + table) \<Rightarrow> 'f option \<Rightarrow> widgets \<Rightarrow> event list \<times> error option" where
  "main read_csv uploaded_file w =
     (case uploaded_file of
        None \<Rightarrow> ([Info], None)
      | Some file \<Rightarrow>
          (case load_data read_csv file of
             Inl e \<Rightarrow> ([], Some e)
           | Inr df \<Rightarrow>
               (case run_sidebar_filters df w of
                  Inl e \<Rightarrow> ([Raw_data_preview (take 5 df)], Some e)
                | Inr filtered_df \<Rightarrow>
                    ([Raw_data_preview (take 5 df), Filtered_rows (length filtered_df)] @
                     (if length filtered_df = 0 then [Warning_no_data]
                      else [Kpi_section (kpi_section filtered_df),
                            Charts_section (charts_section filtered_df)]), None))))"

section \<open>Frames as objects\<close>

text \<open>
  A DataFrame is a mutable object and a Python variable holds a reference to it. For what
  a stage does to the frames it is handed, the objects live in a store: a list of
  frames, the address of a frame being its index. A frame object has the rows of the CSV
  columns and, once assigned, the derived columns. Allocation appends to the store.
\<close>

record frame =
  rows :: table
  col_order_value :: "rat list option"
  col_total_cost :: "rat list option"
  col_profit :: "rat list option"
  col_delivery_days :: "int list option"
  col_is_late :: "bool list option"

type_synonym store = "frame list"

definition new_frame :: "table \<Rightarrow> frame" where
  "new_frame df =
     \<lparr> rows = df, col_order_value = None, col_total_cost = None, col_profit = None,
       col_delivery_days = None, col_is_late = None \<rparr>"

text \<open>\<^verbatim>\<open>df.copy()\<close>: a new object with the same columns.\<close>

definition df_copy :: "nat \<Rightarrow> store \<Rightarrow> nat \<times> store" where
  "df_copy a h = (length h, h @ [h ! a])"

text \<open>\<^verbatim>\<open>df.loc[mask]\<close>: a new object, every column restricted to the mask.\<close>

definition df_loc :: "nat \<Rightarrow> bool list \<Rightarrow> store \<Rightarrow> nat \<times> store" where
  "df_loc a msk h =
     (let f = h ! a
      in (length h,
          h @ [\<lparr> rows = loc (rows f) msk,
                 col_order_value = map_option (\<lambda>c. loc c msk) (col_order_value f),
                 col_total_cost = map_option (\<lambda>c. loc c msk) (col_total_cost f),
                 col_profit = map_option (\<lambda>c. loc c msk) (col_profit f),
                 col_delivery_days = map_option (\<lambda>c. loc c msk) (col_delivery_days f),
                 col_is_late = map_option (\<lambda>c. loc c msk) (col_is_late f) \<rparr>]))"

text \<open>\<^verbatim>\<open>df[name] = ...\<close>: the object at the address gets the column.\<close>

definition assign_col :: "nat \<Rightarrow> (frame \<Rightarrow> frame) \<Rightarrow> store \<Rightarrow> store" where
  "assign_col a upd h = h[a := upd (h ! a)]"

text \<open>\<^verbatim>\<open>df.assign(is_late=...)\<close>: a new object with the column added.\<close>

definition df_assign_is_late :: "nat \<Rightarrow> store \<Rightarrow> nat \<times> store" where
  "df_assign_is_late a h =
     (length h, h @ [(h ! a)\<lparr>col_is_late := Some (map is_late (rows (h ! a)))\<rparr>])"

definition sidebar_filters_st :: "nat \<Rightarrow> widgets \<Rightarrow> store \<Rightarrow> nat \<times> store" where
  "sidebar_filters_st a w h =
     (let df = rows (h ! a);
          (start_date, end_date) = normalize_range df (date_range w);
          start_ts = to_datetime start_date;
          end_ts = to_datetime end_date;
          msk = filter_mask df (regions w) (warehouses w) (categories w) start_ts end_ts;
          (l, h1) = df_loc a msk h
      in df_copy l h1)"

definition kpi_section_st :: "nat \<Rightarrow> store \<Rightarrow> kpi \<times> store" where
  "kpi_section_st a h =
     (let (d, h1) = df_copy a h;
          h2 = assign_col d (\<lambda>f. f\<lparr>col_order_value := Some (map order_value (rows f))\<rparr>) h1;
          h3 = assign_col d (\<lambda>f. f\<lparr>col_total_cost := Some (map total_cost (rows f))\<rparr>) h2;
          h4 = assign_col d (\<lambda>f. f\<lparr>col_profit := Some (map profit (rows f))\<rparr>) h3;
          h5 = assign_col d (\<lambda>f. f\<lparr>col_delivery_days := Some (map delivery_days (rows f))\<rparr>) h4;
          h6 = assign_col d (\<lambda>f. f\<lparr>col_is_late := Some (map is_late (rows f))\<rparr>) h5
      in (kpi_section (rows (h6 ! d)), h6))"

definition charts_section_st :: "nat \<Rightarrow> store \<Rightarrow> charts \<times> store" where
  "charts_section_st a h =
     (let (d, h1) = df_copy a h;
          h2 = assign_col d (\<lambda>f. f\<lparr>col_order_value := Some (map order_value (rows f))\<rparr>) h1;
          h3 = assign_col d (\<lambda>f. f\<lparr>col_delivery_days := Some (map delivery_days (rows f))\<rparr>) h2;
          (t, h4) = df_assign_is_late d h3;
          h5 = assign_col d (\<lambda>f. f\<lparr>col_total_cost := Some (map total_cost (rows f))\<rparr>) h4;
          h6 = assign_col d (\<lambda>f. f\<lparr>col_profit := Some (map profit (rows f))\<rparr>) h5
      in (charts_section (rows (h6 ! d)), h6))"

section \<open>Vocabulary of the properties\<close>

text \<open>The four predicates of the filter contract, on one row.\<close>

definition keeps :: "string list \<Rightarrow> string list \<Rightarrow> string list \<Rightarrow>
    timestamp \<Rightarrow> timestamp \<Rightarrow> row \<Rightarrow> bool" where
  "keeps rs ws cs s e r =
     (region r \<in> set rs \<and> warehouse_id r \<in> set ws \<and> product_category r \<in> set cs \<and>
      s \<le> order_date r \<and> order_date r \<le> e)"

text \<open>The pair \<^verbatim>\<open>(start_ts, end_ts)\<close> of lines 188 to 201.\<close>

definition date_interval :: "table \<Rightarrow> date_input \<Rightarrow> timestamp option \<times> timestamp option" where
  "date_interval df di = (let (s, e) = normalize_range df di in (to_datetime s, to_datetime e))"

text \<open>The interval as the specification words it: a single date is both ends, a
  two-element interval is itself, anything else is the span from the least to the
  greatest \<^verbatim>\<open>order_date\<close> of the table.\<close>

definition claimed_interval ::
  "table \<Rightarrow> date_input \<Rightarrow> timestamp option \<times> timestamp option" where
  "claimed_interval df di =
     (case di of
        Single_date d \<Rightarrow> (to_datetime (Some d), to_datetime (Some d))
      | Date_tuple ds \<Rightarrow>
          (case ds of
             [s, e] \<Rightarrow> (to_datetime (Some s), to_datetime (Some e))
           | _ \<Rightarrow> (series_min (map order_date df), series_max (map order_date df))))"

text \<open>The distinct values of a column in the order of their first occurrence.\<close>

definition first_occurrence_order :: "'a list \<Rightarrow> 'a list" where
  "first_occurrence_order xs = rev (remdups (rev xs))"

text \<open>The three rows of the example scenario. The scenario leaves the identifiers and
  the dates open; here the orders are placed on days 0, 1 and 2, shipped a day later and
  delivered three days after that.\<close>

definition example_row ::
  "string \<Rightarrow> int \<Rightarrow> string \<Rightarrow> string \<Rightarrow> string \<Rightarrow> int \<Rightarrow> rat \<Rightarrow> rat \<Rightarrow> rat \<Rightarrow> string \<Rightarrow> row" where
  "example_row oid day reg wh cat units price ship fulfil status =
     \<lparr> order_id = oid, order_date = day * ns_per_day, ship_date = (day + 1) * ns_per_day,
       delivery_date = (day + 4) * ns_per_day, units_sold = units, unit_price = price,
       shipping_cost = ship, fulfillment_cost = fulfil, delivery_status = status,
       region = reg, warehouse_id = wh, product_category = cat \<rparr>"

definition example_table :: table where
  "example_table =
     [example_row ''A1'' 0 ''US'' ''W1'' ''Electronics'' 2 10 1 1 ''Late'',
      example_row ''A2'' 1 ''US'' ''W2'' ''Electronics'' 1 20 2 2 ''On Time'',
      example_row ''A3'' 2 ''EU'' ''W1'' ''Books'' 5 5 1 1 ''On Time'']"

text \<open>Two orders of one region, warehouse and category, placed on days 0 and 1.\<close>

definition two_days :: table where
  "two_days =
     [example_row ''A1'' 0 ''US'' ''W1'' ''Books'' 1 1 0 0 ''Late'',
      example_row ''A2'' 1 ''US'' ''W1'' ''Books'' 1 1 0 0 ''Late'']"

text \<open>An order placed at noon of day 0.\<close>

definition noon_row :: row where
  "noon_row =
     (example_row ''A1'' 0 ''US'' ''W1'' ''Books'' 1 1 0 0 ''Late'')
       \<lparr>order_date := 43200000000000\<rparr>"

text \<open>A timestamp against the two ends of the interval, as the last two columns of the
  mask compare it.\<close>

definition in_range :: "timestamp option \<Rightarrow> timestamp option \<Rightarrow> timestamp \<Rightarrow> bool" where
  "in_range st en x =
     ((case st of None \<Rightarrow> False | Some s \<Rightarrow> s \<le> x) \<and>
      (case en of None \<Rightarrow> False | Some e \<Rightarrow> x \<le> e))"

text \<open>The latest \<^verbatim>\<open>order_date\<close> of the table has no time of day: cutting it to its date
  and back gives the same timestamp.\<close>

definition latest_at_midnight :: "table \<Rightarrow> bool" where
  "latest_at_midnight df \<longleftrightarrow> to_datetime (max_date df) = series_max (map order_date df)"

text \<open>The events of a run that come from \<^verbatim>\<open>kpi_section\<close> or \<^verbatim>\<open>charts_section\<close>.\<close>

fun is_computation :: "event \<Rightarrow> bool" where
  "is_computation (Kpi_section k) = True"
| "is_computation (Charts_section c) = True"
| "is_computation e = False"

text \<open>A parser that reads the example table from any file.\<close>

definition example_reader :: "string \<Rightarrow> error + table" where
  "example_reader file = Inr example_table"

text \<open>The events of a run that ends in the warning of line 235: the preview, the count
  of zero filtered rows, the warning.\<close>

definition no_data :: "table \<Rightarrow> event list" where
  "no_data df = [Raw_data_preview (take 5 df), Filtered_rows 0, Warning_no_data]"

section \<open>The filter keeps the rows of the four predicates\<close>

lemma loc_map: "loc xs (map p xs) = filter p xs"
  by (induction xs) (simp_all add: loc_def)

lemma series_and_map: "series_and (map p xs) (map q xs) = map (\<lambda>x. p x \<and> q x) xs"
  by (induction xs) (simp_all add: series_and_def)

lemma filter_mask_map:
  "filter_mask df rs ws cs st en =
     map (\<lambda>r. region r \<in> set rs \<and> warehouse_id r \<in> set ws \<and> product_category r \<in> set cs \<and>
               in_range st en (order_date r)) df"
  by (simp add: filter_mask_def isin_def series_ge_def series_le_def series_and_map
      in_range_def comp_def conj_assoc)

lemma apply_filter_filter:
  "apply_filter df rs ws cs st en =
     filter (\<lambda>r. region r \<in> set rs \<and> warehouse_id r \<in> set ws \<and> product_category r \<in> set cs \<and>
               in_range st en (order_date r)) df"
  by (simp add: apply_filter_def filter_mask_map loc_map)

lemma apply_filter_keeps:
  "apply_filter df rs ws cs (Some s) (Some e) = filter (keeps rs ws cs s e) df"
  unfolding apply_filter_filter by (rule filter_cong) (simp_all add: keeps_def in_range_def)

lemma subseq_filter_weaken: "(\<And>x. p x \<Longrightarrow> q x) \<Longrightarrow> subseq (filter p xs) (filter q xs)"
  by (induction xs) auto

lemma sidebar_filters_interval:
  "sidebar_filters df w =
     apply_filter df (regions w) (warehouses w) (categories w)
       (fst (date_interval df (date_range w))) (snd (date_interval df (date_range w)))"
  by (simp add: sidebar_filters_def date_interval_def split: prod.splits)

text \<open>
  C1. For every table \<open>T\<close> and criteria (region set, warehouse set, category set, start,
  end), the filter returns the rows of \<open>T\<close> that satisfy all four predicates, each as
  often as \<open>T\<close> has it and in the order of \<open>T\<close>: a row is in the result iff it is in \<open>T\<close>
  and all four hold. The result with any one predicate dropped contains the result, in
  order.
\<close>

theorem filter_conjunctive:
  "apply_filter T rs ws cs (Some s) (Some e) = filter (keeps rs ws cs s e) T \<and>
   (r \<in> set (apply_filter T rs ws cs (Some s) (Some e)) \<longleftrightarrow> r \<in> set T \<and> keeps rs ws cs s e r) \<and>
   subseq (apply_filter T rs ws cs (Some s) (Some e)) T \<and>
   subseq (apply_filter T rs ws cs (Some s) (Some e))
     (filter (\<lambda>r. warehouse_id r \<in> set ws \<and> product_category r \<in> set cs \<and>
                   s \<le> order_date r \<and> order_date r \<le> e) T) \<and>
   subseq (apply_filter T rs ws cs (Some s) (Some e))
     (filter (\<lambda>r. region r \<in> set rs \<and> product_category r \<in> set cs \<and>
                   s \<le> order_date r \<and> order_date r \<le> e) T) \<and>
   subseq (apply_filter T rs ws cs (Some s) (Some e))
     (filter (\<lambda>r. region r \<in> set rs \<and> warehouse_id r \<in> set ws \<and>
                   s \<le> order_date r \<and> order_date r \<le> e) T) \<and>
   subseq (apply_filter T rs ws cs (Some s) (Some e))
     (filter (\<lambda>r. region r \<in> set rs \<and> warehouse_id r \<in> set ws \<and>
                   product_category r \<in> set cs) T)"
proof -
  let ?A = "apply_filter T rs ws cs (Some s) (Some e)"
  have eq: "?A = filter (keeps rs ws cs s e) T" by (rule apply_filter_keeps)
  have mem: "r \<in> set ?A \<longleftrightarrow> r \<in> set T \<and> keeps rs ws cs s e r"
    unfolding eq by simp
  have sub: "subseq ?A T" unfolding eq by simp
  have w: "\<And>q. (\<And>x. keeps rs ws cs s e x \<Longrightarrow> q x) \<Longrightarrow> subseq ?A (filter q T)"
    unfolding eq by (rule subseq_filter_weaken)
  show ?thesis
    using eq mem sub by (intro conjI w) (simp_all add: keeps_def)
qed

text \<open>
  C4. An empty selection of regions, of warehouses or of categories leaves no row,
  whatever the table, the other selections and the dates; so it is for the whole of
  \<^verbatim>\<open>sidebar_filters\<close>.
\<close>

theorem empty_selection:
  "apply_filter T [] ws cs st en = [] \<and>
   apply_filter T rs [] cs st en = [] \<and>
   apply_filter T rs ws [] st en = [] \<and>
   sidebar_filters T (w\<lparr>regions := []\<rparr>) = [] \<and>
   sidebar_filters T (w\<lparr>warehouses := []\<rparr>) = [] \<and>
   sidebar_filters T (w\<lparr>categories := []\<rparr>) = []"
  by (simp add: apply_filter_filter sidebar_filters_def split: prod.splits)

section \<open>The date range\<close>

lemma series_min_le:
  "r \<in> set df \<Longrightarrow> \<exists>m. series_min (map order_date df) = Some m \<and> m \<le> order_date r"
  by (cases df) (auto simp: series_min_def simp flip: Min.set_eq_fold)

lemma series_max_ge:
  "r \<in> set df \<Longrightarrow> \<exists>m. series_max (map order_date df) = Some m \<and> order_date r \<le> m"
  by (cases df) (auto simp: series_max_def simp flip: Max.set_eq_fold)

lemma floor_day_le: "x div ns_per_day * ns_per_day \<le> x"
proof -
  have "x div ns_per_day * ns_per_day + x mod ns_per_day = x" by simp
  moreover have "0 \<le> x mod ns_per_day" by (simp add: ns_per_day_def)
  ultimately show ?thesis by linarith
qed

lemma fallback_start_le:
  assumes "r \<in> set df"
  shows "\<exists>s. to_datetime (min_date df) = Some s \<and> s \<le> order_date r"
proof -
  from series_min_le [OF assms] obtain m
    where m: "series_min (map order_date df) = Some m" "m \<le> order_date r" by blast
  have "m div ns_per_day * ns_per_day \<le> m" by (rule floor_day_le)
  with m show ?thesis by (simp add: to_datetime_def min_date_def date_of_def)
qed

lemma fallback_in_range:
  assumes "latest_at_midnight df" "r \<in> set df"
  shows "in_range (to_datetime (min_date df)) (to_datetime (max_date df)) (order_date r)"
proof -
  from fallback_start_le [OF assms(2)] obtain s
    where "to_datetime (min_date df) = Some s" "s \<le> order_date r" by blast
  moreover from series_max_ge [OF assms(2)] assms(1) obtain e
    where "to_datetime (max_date df) = Some e" "order_date r \<le> e"
    by (auto simp: latest_at_midnight_def)
  ultimately show ?thesis by (simp add: in_range_def)
qed

lemma normalize_range_fallback:
  "length ds \<noteq> 1 \<Longrightarrow> length ds \<noteq> 2 \<Longrightarrow> normalize_range df (Date_tuple ds) = (min_date df, max_date df)"
  by (cases "(df, Date_tuple ds)" rule: normalize_range.cases) simp_all

text \<open>
  C3, as the specification states it, fails. A tuple of one date, which is what the
  widget holds while a range is half chosen, is neither a bare date nor a two-element
  interval, and the code takes it as the interval of that one day, not as the span of the
  table: on \<open>two_days\<close> the order of day 1 is dropped. The fallback of the code is cut to
  whole days: for one order placed at noon its interval ends at the midnight before, it
  is not the least and greatest \<^verbatim>\<open>order_date\<close>, and the order is dropped.
\<close>

theorem date_range_counterexample:
  "date_interval two_days (Date_tuple [0]) = (Some 0, Some 0) \<and>
   claimed_interval two_days (Date_tuple [0]) = (Some 0, Some ns_per_day) \<and>
   date_interval two_days (Date_tuple [0]) \<noteq> claimed_interval two_days (Date_tuple [0]) \<and>
   sidebar_filters two_days
     \<lparr>regions = [''US''], warehouses = [''W1''], categories = [''Books''],
      date_range = Date_tuple [0]\<rparr> =
     [example_row ''A1'' 0 ''US'' ''W1'' ''Books'' 1 1 0 0 ''Late''] \<and>
   date_interval [noon_row] (Date_tuple []) = (Some 0, Some 0) \<and>
   claimed_interval [noon_row] (Date_tuple []) = (Some 43200000000000, Some 43200000000000) \<and>
   sidebar_filters [noon_row]
     \<lparr>regions = [''US''], warehouses = [''W1''], categories = [''Books''],
      date_range = Date_tuple []\<rparr> = []"
  by (simp add: date_interval_def claimed_interval_def two_days_def noon_row_def example_row_def
      sidebar_filters_def apply_filter_filter in_range_def to_datetime_def min_date_def max_date_def
      date_of_def series_min_def series_max_def ns_per_day_def)

text \<open>
  C3, amended. A single date \<open>d\<close>, bare or as a tuple of one date, gives the interval from
  midnight of \<open>d\<close> to midnight of \<open>d\<close>; a tuple of two dates gives the interval between
  their midnights; a tuple of any other length gives, for every table, the interval
  from midnight of the day of the least \<^verbatim>\<open>order_date\<close> to midnight of the day of the
  greatest one, a function of the table alone. When the greatest \<^verbatim>\<open>order_date\<close> has no
  time of day, that fallback ends at the greatest \<^verbatim>\<open>order_date\<close> and the dates exclude no
  row: the filter keeps every row that the three selections keep.
\<close>

theorem date_range_normalization:
  "date_interval df (Single_date d) = (Some (d * ns_per_day), Some (d * ns_per_day)) \<and>
   date_interval df (Date_tuple [d]) = (Some (d * ns_per_day), Some (d * ns_per_day)) \<and>
   date_interval df (Date_tuple [s, e]) = (Some (s * ns_per_day), Some (e * ns_per_day)) \<and>
   (length ds \<noteq> 1 \<and> length ds \<noteq> 2 \<longrightarrow>
      date_interval df (Date_tuple ds) = (to_datetime (min_date df), to_datetime (max_date df)) \<and>
      (latest_at_midnight df \<longrightarrow>
         date_interval df (Date_tuple ds) =
           (to_datetime (min_date df), series_max (map order_date df)) \<and>
         sidebar_filters df (w\<lparr>date_range := Date_tuple ds\<rparr>) =
           filter (\<lambda>r. region r \<in> set (regions w) \<and> warehouse_id r \<in> set (warehouses w) \<and>
                        product_category r \<in> set (categories w)) df))"
proof -
  have fb: "date_interval df (Date_tuple ds) = (to_datetime (min_date df), to_datetime (max_date df))"
    if "length ds \<noteq> 1" "length ds \<noteq> 2"
    using that by (simp add: date_interval_def normalize_range_fallback)
  have keep: "sidebar_filters df (w\<lparr>date_range := Date_tuple ds\<rparr>) =
           filter (\<lambda>r. region r \<in> set (regions w) \<and> warehouse_id r \<in> set (warehouses w) \<and>
                        product_category r \<in> set (categories w)) df"
    if "length ds \<noteq> 1" "length ds \<noteq> 2" "latest_at_midnight df"
    unfolding sidebar_filters_interval apply_filter_filter
    by (rule filter_cong) (simp_all add: fb [OF that(1,2)] fallback_in_range [OF that(3)])
  show ?thesis
    using fb keep
    by (auto simp: date_interval_def to_datetime_def latest_at_midnight_def)
qed



text \<open>The amended C3 at the example table, with no date chosen and everything else
  selected: the whole table comes back.\<close>

theorem date_range_normalization_witness:
  "latest_at_midnight example_table \<and>
   date_interval example_table (Date_tuple []) = (Some 0, Some (2 * ns_per_day)) \<and>
   sidebar_filters example_table
     \<lparr>regions = [''EU'', ''US''], warehouses = [''W1'', ''W2''],
      categories = [''Books'', ''Electronics''], date_range = Date_tuple []\<rparr> = example_table"
proof -
  let ?w = "\<lparr>regions = [''EU'', ''US''], warehouses = [''W1'', ''W2''],
      categories = [''Books'', ''Electronics''], date_range = Single_date 0\<rparr>"
  have m: "latest_at_midnight example_table"
    by (simp add: latest_at_midnight_def to_datetime_def max_date_def date_of_def
        series_max_def example_table_def example_row_def ns_per_day_def)
  have l: "length ([] :: date list) \<noteq> 1 \<and> length ([] :: date list) \<noteq> 2"
    by simp
  note t = date_range_normalization [of example_table 0 0 0 "[]" ?w]
  from t l m have a: "date_interval example_table (Date_tuple []) =
      (to_datetime (min_date example_table), series_max (map order_date example_table))"
    by blast
  from t l m have b: "sidebar_filters example_table (?w\<lparr>date_range := Date_tuple []\<rparr>) =
      filter (\<lambda>r. region r \<in> set (regions ?w) \<and> warehouse_id r \<in> set (warehouses ?w) \<and>
                   product_category r \<in> set (categories ?w)) example_table"
    by blast
  have c: "(to_datetime (min_date example_table), series_max (map order_date example_table)) =
      (Some 0, Some (2 * ns_per_day))"
    by (simp add: to_datetime_def min_date_def date_of_def series_min_def series_max_def
        example_table_def example_row_def ns_per_day_def)
  have d: "filter (\<lambda>r. region r \<in> set (regions ?w) \<and> warehouse_id r \<in> set (warehouses ?w) \<and>
                   product_category r \<in> set (categories ?w)) example_table = example_table"
    by (simp add: example_table_def example_row_def)
  from b d have e: "sidebar_filters example_table
     \<lparr>regions = [''EU'', ''US''], warehouses = [''W1'', ''W2''],
      categories = [''Books'', ''Electronics''], date_range = Date_tuple []\<rparr> = example_table"
    by simp
  from m a c e show ?thesis
    by (simp only: simp_thms)
qed

section \<open>Grouped tables\<close>

lemma map_fst_groupby: "map fst (groupby key df) = sort (remdups (map key df))"
  by (simp add: groupby_def comp_def)

lemma groupby_keys_sorted: "sorted_wrt (<) (map fst (groupby key df))"
  unfolding map_fst_groupby
  by (simp add: strict_sorted_iff)

text \<open>
  C5, as the specification states it, fails for the region and category tables: on the
  example table the regions first occur as US, EU and the categories as Electronics,
  Books, and the grouped tables list EU, US and Books, Electronics.
\<close>

theorem grouping_order_counterexample:
  "map fst (revenue_by_region (charts_section example_table)) = [''EU'', ''US''] \<and>
   first_occurrence_order (map region example_table) = [''US'', ''EU''] \<and>
   map fst (revenue_by_region (charts_section example_table)) \<noteq>
     first_occurrence_order (map region example_table) \<and>
   map fst (perf_by_cat (charts_section example_table)) = [''Books'', ''Electronics''] \<and>
   first_occurrence_order (map product_category example_table) = [''Electronics'', ''Books''] \<and>
   map fst (perf_by_cat (charts_section example_table)) \<noteq>
     first_occurrence_order (map product_category example_table)"
  by (simp add: charts_section_def groupby_def example_table_def example_row_def
      first_occurrence_order_def)

text \<open>
  C5, amended. For every table, the by-date series, the by-region table and the
  by-category table each list the distinct values of their key column once, in strictly
  ascending order of the key.
\<close>

theorem grouping_order:
  "map fst (orders_by_date (charts_section df)) = sort (remdups (map order_date df)) \<and>
   map fst (revenue_by_region (charts_section df)) = sort (remdups (map region df)) \<and>
   map fst (perf_by_cat (charts_section df)) = sort (remdups (map product_category df)) \<and>
   sorted_wrt (<) (map fst (orders_by_date (charts_section df))) \<and>
   sorted_wrt (<) (map fst (revenue_by_region (charts_section df))) \<and>
   sorted_wrt (<) (map fst (perf_by_cat (charts_section df)))"
proof -
  have d: "map fst (orders_by_date (charts_section df)) = map fst (groupby order_date df)"
    by (simp add: charts_section_def comp_def case_prod_unfold)
  have r: "map fst (revenue_by_region (charts_section df)) = map fst (groupby region df)"
    by (simp add: charts_section_def comp_def case_prod_unfold)
  have c: "map fst (perf_by_cat (charts_section df)) = map fst (groupby product_category df)"
    by (simp add: charts_section_def comp_def case_prod_unfold)
  show ?thesis
    unfolding d r c by (simp add: map_fst_groupby groupby_keys_sorted [unfolded map_fst_groupby])
qed


section \<open>The example scenario\<close>

text \<open>
  C2. On the three-row example table, selecting the region US (every warehouse and
  category, every date) keeps exactly the first two rows, and the KPIs of those rows are
  2 orders, revenue 40, profit 34 and an on-time rate of 50. For every table the on-time
  rate is 100 times (1 minus the mean of \<^verbatim>\<open>is_late\<close>), where \<^verbatim>\<open>is_late\<close> is whether
  \<^verbatim>\<open>delivery_status\<close> equals Late.
\<close>

theorem example_scenario:
  "length (sidebar_filters example_table
      \<lparr>regions = [''US''], warehouses = [''W1'', ''W2''],
       categories = [''Books'', ''Electronics''], date_range = Date_tuple [0, 2]\<rparr>) = 2 \<and>
   sidebar_filters example_table
      \<lparr>regions = [''US''], warehouses = [''W1'', ''W2''],
       categories = [''Books'', ''Electronics''], date_range = Date_tuple [0, 2]\<rparr> =
     take 2 example_table \<and>
   total_orders (kpi_section (sidebar_filters example_table
      \<lparr>regions = [''US''], warehouses = [''W1'', ''W2''],
       categories = [''Books'', ''Electronics''], date_range = Date_tuple [0, 2]\<rparr>)) = 2 \<and>
   total_revenue (kpi_section (sidebar_filters example_table
      \<lparr>regions = [''US''], warehouses = [''W1'', ''W2''],
       categories = [''Books'', ''Electronics''], date_range = Date_tuple [0, 2]\<rparr>)) = 40 \<and>
   total_profit (kpi_section (sidebar_filters example_table
      \<lparr>regions = [''US''], warehouses = [''W1'', ''W2''],
       categories = [''Books'', ''Electronics''], date_range = Date_tuple [0, 2]\<rparr>)) = 34 \<and>
   on_time_rate (kpi_section (sidebar_filters example_table
      \<lparr>regions = [''US''], warehouses = [''W1'', ''W2''],
       categories = [''Books'', ''Electronics''], date_range = Date_tuple [0, 2]\<rparr>)) = Some 50 \<and>
   on_time_rate (kpi_section df) =
     map_option (\<lambda>m. 100 * (1 - m)) (bool_mean (map (\<lambda>r. delivery_status r = ''Late'') df))"
proof -
  have f: "sidebar_filters example_table
      \<lparr>regions = [''US''], warehouses = [''W1'', ''W2''],
       categories = [''Books'', ''Electronics''], date_range = Date_tuple [0, 2]\<rparr> =
     take 2 example_table"
    by (simp add: sidebar_filters_def apply_filter_filter in_range_def to_datetime_def
        example_table_def example_row_def ns_per_day_def)
  have k: "kpi_section (take 2 example_table) =
     \<lparr>total_orders = 2, total_revenue = 40, total_profit = 34, on_time_rate = Some 50,
      avg_delivery_days = Some 3, avg_fulfillment_cost = Some (3 / 2)\<rparr>"
    by (simp add: kpi_section_def example_table_def example_row_def order_value_def profit_def
        total_cost_def is_late_def delivery_days_def bool_mean_def mean_def ns_per_day_def)
  have g: "on_time_rate (kpi_section df) =
     map_option (\<lambda>m. 100 * (1 - m)) (bool_mean (map (\<lambda>r. delivery_status r = ''Late'') df))"
    by (simp add: kpi_section_def is_late_def [abs_def])
  show ?thesis
    unfolding f k using g by (simp add: example_table_def)
qed

section \<open>Bounds of the on-time rate\<close>

lemma bool_mean_bounds:
  assumes "bs \<noteq> []"
  shows "\<exists>m. bool_mean bs = Some m \<and> 0 \<le> m \<and> m \<le> 1"
proof -
  let ?xs = "map (\<lambda>b. if b then (1::rat) else 0) bs"
  have nn: "0 \<le> sum_list ?xs" by (rule sum_list_nonneg) auto
  have "sum_list ?xs \<le> sum_list (map (\<lambda>b. 1::rat) bs)"
    by (rule sum_list_mono) auto
  then have le: "sum_list ?xs \<le> of_nat (length bs)"
    by (simp add: sum_list_triv)
  from assms have pos: "(0::rat) < of_nat (length bs)" by simp
  from nn le pos show ?thesis
    by (simp add: bool_mean_def mean_def assms divide_le_eq)
qed

lemma rate_bounds:
  assumes "bs \<noteq> []"
  shows "\<exists>r. map_option (\<lambda>m. 100 * (1 - m)) (bool_mean bs) = Some r \<and> 0 \<le> r \<and> r \<le> (100::rat)"
proof -
  from bool_mean_bounds [OF assms] obtain m where "bool_mean bs = Some m" "0 \<le> m" "m \<le> 1"
    by blast
  then show ?thesis by simp
qed

lemma groupby_group_nonempty: "(k, g) \<in> set (groupby key df) \<Longrightarrow> g \<noteq> []"
  by (auto simp: groupby_def filter_empty_conv)

text \<open>
  C9. For every table with at least one row, the on-time rate of the KPIs is a number
  between 0 and 100; for every table, the on-time rate of every row of the by-warehouse
  table is a number between 0 and 100 (in exact arithmetic).
\<close>

theorem on_time_rate_bounds:
  "(df \<noteq> [] \<longrightarrow> (\<exists>r. on_time_rate (kpi_section df) = Some r \<and> 0 \<le> r \<and> r \<le> 100)) \<and>
   (\<forall>wh v. (wh, v) \<in> set (ontime_by_wh (charts_section df)) \<longrightarrow>
      (\<exists>r. v = Some r \<and> 0 \<le> r \<and> r \<le> 100))"
proof (intro conjI impI allI)
  assume "df \<noteq> []"
  then have "map is_late df \<noteq> []" by simp
  from rate_bounds [OF this]
  show "\<exists>r. on_time_rate (kpi_section df) = Some r \<and> 0 \<le> r \<and> r \<le> 100"
    by (simp add: kpi_section_def)
next
  fix wh v
  assume "(wh, v) \<in> set (ontime_by_wh (charts_section df))"
  then obtain g where g: "(wh, g) \<in> set (groupby warehouse_id df)"
    and v: "v = map_option (\<lambda>m. 100 * (1 - m)) (bool_mean (map is_late g))"
    by (auto simp: charts_section_def)
  from groupby_group_nonempty [OF g] have "map is_late g \<noteq> []" by simp
  from rate_bounds [OF this] v
  show "\<exists>r. v = Some r \<and> 0 \<le> r \<and> r \<le> 100" by simp
qed

text \<open>C9 on the example table, and on its warehouse W1, half of whose orders are late.\<close>

theorem on_time_rate_bounds_witness:
  "example_table \<noteq> [] \<and>
   (\<exists>r. on_time_rate (kpi_section example_table) = Some r \<and> 0 \<le> r \<and> r \<le> 100) \<and>
   (''W1'', Some 50) \<in> set (ontime_by_wh (charts_section example_table)) \<and>
   (\<exists>r. Some (50::rat) = Some r \<and> 0 \<le> r \<and> r \<le> 100)"
proof -
  have n: "example_table \<noteq> []" by (simp add: example_table_def)
  have w: "(''W1'', Some 50) \<in> set (ontime_by_wh (charts_section example_table))"
    by (simp add: charts_section_def groupby_def example_table_def example_row_def
        is_late_def bool_mean_def mean_def)
  from on_time_rate_bounds [of example_table] n w show ?thesis by blast
qed

section \<open>The short circuit on no rows\<close>

lemma sidebar_filters_filter:
  "sidebar_filters df w =
     filter (\<lambda>r. region r \<in> set (regions w) \<and> warehouse_id r \<in> set (warehouses w) \<and>
       product_category r \<in> set (categories w) \<and>
       in_range (fst (date_interval df (date_range w))) (snd (date_interval df (date_range w)))
         (order_date r)) df"
  by (simp add: sidebar_filters_interval apply_filter_filter)

lemma unobserved_region: "reg \<notin> region ` set df \<Longrightarrow> sidebar_filters df (w\<lparr>regions := [reg]\<rparr>) = []"
  unfolding sidebar_filters_filter by (auto simp: filter_empty_conv)

lemma run_sidebar_filters_rows: "df \<noteq> [] \<Longrightarrow> run_sidebar_filters df w = Inr (sidebar_filters df w)"
  by (cases df) (simp_all add: run_sidebar_filters_def series_min_def)

text \<open>A file with a header and no rows loads as the table of no rows; the run shows
  the empty preview and ends with the exception of line 178, before any count, warning,
  KPI or chart.\<close>

lemma main_no_rows:
  "read_csv file = Inr [] \<Longrightarrow>
     main read_csv (Some file) w = ([Raw_data_preview []], Some Attribute_error)"
  by (simp add: main_def load_data_def run_sidebar_filters_def series_min_def)

text \<open>
  C7. Once a file with at least one row is loaded, a run whose filter keeps no row shows
  the preview, the count of zero rows and the warning, and nothing else; a run whose
  filter keeps a row shows the KPIs and the charts of the filtered table. Such a run ends
  without an exception, and it has an event of the KPI or chart stage iff the filtered
  table is not empty. Selecting only a region that no row of the table has ends in the
  warning.
\<close>

theorem empty_short_circuit:
  assumes "read_csv file = Inr df" and "df \<noteq> []"
  shows "(sidebar_filters df w = [] \<longrightarrow>
            main read_csv (Some file) w = (no_data df, None)) \<and>
         (sidebar_filters df w \<noteq> [] \<longrightarrow>
            main read_csv (Some file) w =
              ([Raw_data_preview (take 5 df), Filtered_rows (length (sidebar_filters df w)),
                Kpi_section (kpi_section (sidebar_filters df w)),
                Charts_section (charts_section (sidebar_filters df w))], None)) \<and>
         (\<exists>evs. main read_csv (Some file) w = (evs, None) \<and>
            (list_ex is_computation evs \<longleftrightarrow> sidebar_filters df w \<noteq> [])) \<and>
         (reg \<notin> region ` set df \<longrightarrow>
            main read_csv (Some file) (w\<lparr>regions := [reg]\<rparr>) = (no_data df, None))"
  using assms(1) unobserved_region [of reg df w] run_sidebar_filters_rows [OF assms(2)]
  by (simp add: main_def load_data_def no_data_def)

text \<open>C7 on the example table: the region ASIA, which no row has, and the region US.\<close>

theorem empty_short_circuit_witness:
  "example_reader ''orders.csv'' = Inr example_table \<and>
   example_table \<noteq> [] \<and>
   sidebar_filters example_table
     \<lparr>regions = [''ASIA''], warehouses = [''W1'', ''W2''],
      categories = [''Books'', ''Electronics''], date_range = Date_tuple [0, 2]\<rparr> = [] \<and>
   ''ASIA'' \<notin> region ` set example_table \<and>
   main example_reader (Some ''orders.csv'')
     \<lparr>regions = [''ASIA''], warehouses = [''W1'', ''W2''],
      categories = [''Books'', ''Electronics''], date_range = Date_tuple [0, 2]\<rparr> =
     (no_data example_table, None) \<and>
   sidebar_filters example_table
     \<lparr>regions = [''US''], warehouses = [''W1'', ''W2''],
      categories = [''Books'', ''Electronics''], date_range = Date_tuple [0, 2]\<rparr> \<noteq> [] \<and>
   main example_reader (Some ''orders.csv'')
     \<lparr>regions = [''US''], warehouses = [''W1'', ''W2''],
      categories = [''Books'', ''Electronics''], date_range = Date_tuple [0, 2]\<rparr> =
     ([Raw_data_preview (take 5 example_table), Filtered_rows 2,
       Kpi_section (kpi_section (take 2 example_table)),
       Charts_section (charts_section (take 2 example_table))], None)"
proof -
  let ?wa = "\<lparr>regions = [''ASIA''], warehouses = [''W1'', ''W2''],
      categories = [''Books'', ''Electronics''], date_range = Date_tuple [0, 2]\<rparr>"
  let ?wu = "\<lparr>regions = [''US''], warehouses = [''W1'', ''W2''],
      categories = [''Books'', ''Electronics''], date_range = Date_tuple [0, 2]\<rparr>"
  have r: "example_reader ''orders.csv'' = Inr example_table"
    by (simp add: example_reader_def)
  have e: "example_table \<noteq> []"
    by (simp add: example_table_def)
  have a: "sidebar_filters example_table ?wa = []"
    by (simp add: sidebar_filters_def apply_filter_filter example_table_def example_row_def)
  have n: "''ASIA'' \<notin> region ` set example_table"
    by (simp add: example_table_def example_row_def)
  have u: "sidebar_filters example_table ?wu = take 2 example_table"
    by (simp add: sidebar_filters_def apply_filter_filter in_range_def to_datetime_def
        example_table_def example_row_def ns_per_day_def)
  have l: "take 2 example_table \<noteq> [] \<and> length (take 2 example_table) = 2"
    by (simp add: example_table_def)
  note ta = empty_short_circuit
    [of example_reader "''orders.csv''" example_table ?wa "''ASIA''", OF r e]
  note tu = empty_short_circuit
    [of example_reader "''orders.csv''" example_table ?wu "''ASIA''", OF r e]
  from ta a have ma: "main example_reader (Some ''orders.csv'') ?wa = (no_data example_table, None)"
    by blast
  from tu have "sidebar_filters example_table ?wu \<noteq> [] \<longrightarrow>
            main example_reader (Some ''orders.csv'') ?wu =
              ([Raw_data_preview (take 5 example_table),
                Filtered_rows (length (sidebar_filters example_table ?wu)),
                Kpi_section (kpi_section (sidebar_filters example_table ?wu)),
                Charts_section (charts_section (sidebar_filters example_table ?wu))], None)"
    by blast
  with l have mu: "main example_reader (Some ''orders.csv'') ?wu =
     ([Raw_data_preview (take 5 example_table), Filtered_rows 2,
       Kpi_section (kpi_section (take 2 example_table)),
       Charts_section (charts_section (take 2 example_table))], None)"
    unfolding u by simp
  from r e a n ma mu l show ?thesis unfolding u by (simp only: simp_thms)
qed

section \<open>Stages work on copies\<close>

lemma assign_col_fresh: "assign_col (length h) upd (h @ f # fs) = h @ upd f # fs"
  by (simp add: assign_col_def)

lemma kpi_section_st_eq:
  "kpi_section_st a h =
     (kpi_section (rows (h ! a)),
      h @ [(h ! a)\<lparr>col_order_value := Some (map order_value (rows (h ! a))),
                    col_total_cost := Some (map total_cost (rows (h ! a))),
                    col_profit := Some (map profit (rows (h ! a))),
                    col_delivery_days := Some (map delivery_days (rows (h ! a))),
                    col_is_late := Some (map is_late (rows (h ! a)))\<rparr>])"
  by (simp add: kpi_section_st_def df_copy_def assign_col_fresh)

lemma charts_section_st_eq:
  "charts_section_st a h =
     (charts_section (rows (h ! a)),
      h @ [(h ! a)\<lparr>col_order_value := Some (map order_value (rows (h ! a))),
                    col_delivery_days := Some (map delivery_days (rows (h ! a))),
                    col_total_cost := Some (map total_cost (rows (h ! a))),
                    col_profit := Some (map profit (rows (h ! a)))\<rparr>,
           (h ! a)\<lparr>col_order_value := Some (map order_value (rows (h ! a))),
                    col_delivery_days := Some (map delivery_days (rows (h ! a))),
                    col_is_late := Some (map is_late (rows (h ! a)))\<rparr>])"
  by (simp add: charts_section_st_def df_copy_def df_assign_is_late_def assign_col_fresh
      nth_append)

lemma sidebar_filters_st_eq:
  "fst (sidebar_filters_st a w h) = Suc (length h) \<and>
   take (length h) (snd (sidebar_filters_st a w h)) = h \<and>
   rows (snd (sidebar_filters_st a w h) ! Suc (length h)) = sidebar_filters (rows (h ! a)) w"
  by (simp add: sidebar_filters_st_def df_loc_def df_copy_def Let_def nth_append
      sidebar_filters_def apply_filter_def split: prod.splits)

text \<open>
  C10. For every store and every frame \<open>a\<close> in it, each of the filter, the KPI stage and
  the chart stage leaves every frame that was in the store before as it was, writes only
  to frames it allocates, and computes from the rows of \<open>a\<close>; the chart stage run after
  the KPI stage on the same frame sees the rows the KPI stage saw.
\<close>

theorem stages_copy:
  assumes "a < length h"
  shows "take (length h) (snd (sidebar_filters_st a w h)) = h \<and>
         snd (sidebar_filters_st a w h) ! a = h ! a \<and>
         length h \<le> fst (sidebar_filters_st a w h) \<and>
         rows (snd (sidebar_filters_st a w h) ! fst (sidebar_filters_st a w h)) =
           sidebar_filters (rows (h ! a)) w \<and>
         take (length h) (snd (kpi_section_st a h)) = h \<and>
         snd (kpi_section_st a h) ! a = h ! a \<and>
         fst (kpi_section_st a h) = kpi_section (rows (h ! a)) \<and>
         take (length h) (snd (charts_section_st a h)) = h \<and>
         snd (charts_section_st a h) ! a = h ! a \<and>
         fst (charts_section_st a h) = charts_section (rows (h ! a)) \<and>
         fst (charts_section_st a (snd (kpi_section_st a h))) = charts_section (rows (h ! a)) \<and>
         take (length h) (snd (charts_section_st a (snd (kpi_section_st a h)))) = h"
proof -
  note s = sidebar_filters_st_eq [of a w h]
  have sa: "snd (sidebar_filters_st a w h) ! a = h ! a"
  proof -
    have "take (length h) (snd (sidebar_filters_st a w h)) ! a = h ! a" using s by simp
    with assms show ?thesis by simp
  qed
  have k: "snd (kpi_section_st a h) ! a = h ! a"
    using assms by (simp add: kpi_section_st_eq nth_append)
  have ck: "fst (charts_section_st a (snd (kpi_section_st a h))) = charts_section (rows (h ! a))"
    using k by (simp add: charts_section_st_eq)
  have tk: "take (length h) (snd (charts_section_st a (snd (kpi_section_st a h)))) = h"
    by (simp add: charts_section_st_eq kpi_section_st_eq)
  have c: "snd (charts_section_st a h) ! a = h ! a"
    using assms by (simp add: charts_section_st_eq nth_append)
  show ?thesis
    using s sa k ck tk c by (simp add: kpi_section_st_eq charts_section_st_eq)
qed

text \<open>C10 on the store that holds the example table alone.\<close>

theorem stages_copy_witness:
  "(0::nat) < length [new_frame example_table] \<and>
   snd (kpi_section_st 0 [new_frame example_table]) ! 0 = new_frame example_table \<and>
   fst (charts_section_st 0 (snd (kpi_section_st 0 [new_frame example_table]))) =
     charts_section example_table \<and>
   take 1 (snd (charts_section_st 0 (snd (kpi_section_st 0 [new_frame example_table])))) =
     [new_frame example_table]"
proof -
  have l: "(0::nat) < length [new_frame example_table]" by simp
  have r: "rows (new_frame example_table) = example_table" by (simp add: new_frame_def)
  from stages_copy [OF l] r l show ?thesis by simp
qed


end
